theory Spec2Isabelle
  imports Complex_Main "HOL-Library.Sublist" "HOL-Library.Word"
begin

unbundle bit_operations_syntax

section \<open>Python values shared by the modules\<close>

text \<open>
  Exceptions of the Python source are values: a function that can raise returns
  \<open>py_error + 'a\<close>, with \<open>Inl\<close> the exception that leaves the function.
  \<open>ExtractionError\<close> stands for whatever the image libraries raise on an image they
  cannot read.
\<close>

datatype py_error = KeyError | IndexError | ValueError | ExtractionError

text \<open>\<open>range(n)\<close>: the integers \<open>0, ..., n - 1\<close>, empty when \<open>n \<le> 0\<close>.\<close>

definition py_range :: "int \<Rightarrow> int list" where
  "py_range n = [0..n - 1]"

section \<open>The context dictionaries (app/core/context\_engine.py)\<close>

text \<open>
  The weather dictionary built by \<open>WeatherService.get_weather\<close>. A field is \<open>None\<close>
  when the dictionary has no such key; the dictionary is empty (falsy in Python) when every
  field is \<open>None\<close>.
\<close>

record weather =
  w_city :: "string option"
  temperature :: "rat option"
  feels_like :: "rat option"
  humidity :: "rat option"
  description :: "string option"
  main :: "string option"
  icon :: "string option"
  wind_speed :: "rat option"
  clouds :: "rat option"
  source :: "string option"


text \<open>
  The context dictionary built by \<open>ContextEngine.get_context\<close> and extended by
  \<open>create_context_variations\<close> with the keys \<open>theme\<close>, \<open>mood\<close> and
  \<open>variation_id\<close>. As above, \<open>None\<close> is an absent key (for \<open>product_category\<close>
  also the Python value \<open>None\<close>, which no modelled function tells apart).
\<close>

record context_dict =
  city :: "string option"
  weather :: "weather option"
  weather_context :: "string option"
  season :: "string option"
  time_of_day :: "string option"
  pois :: "string list option"
  cultural_context :: "string option"
  local_vibes :: "string option"
  product_category :: "string option"
  timestamp :: "string option"
  theme :: "string option"
  mood :: "string option"
  variation_id :: "int option"

definition empty_context :: context_dict where
  "empty_context = \<lparr> city = None, weather = None, weather_context = None, season = None,
     time_of_day = None, pois = None, cultural_context = None, local_vibes = None,
     product_category = None, timestamp = None, theme = None, mood = None,
     variation_id = None \<rparr>"

subsection \<open>create\_context\_variations\<close>

definition themes :: "string list" where
  "themes = [''morning energy'', ''afternoon relaxation'', ''evening social'',
     ''weekend vibes'', ''festive celebration'', ''local culture'', ''weather-specific'',
     ''POI-focused'', ''lifestyle'', ''aspirational'']"

text \<open>\<open>base_context['weather']['description']\<close>: both subscripts raise KeyError on a missing key.\<close>

definition weather_description :: "context_dict \<Rightarrow> py_error + string" where
  "weather_description base_context =
     (case weather base_context of
        None \<Rightarrow> Inl KeyError
      | Some w \<Rightarrow> (case description w of None \<Rightarrow> Inl KeyError | Some d \<Rightarrow> Inr d))"

text \<open>The \<open>if\<close>/\<open>elif\<close> chain of the loop body that chooses the mood of a theme.\<close>

definition theme_mood :: "context_dict \<Rightarrow> string \<Rightarrow> py_error + string" where
  "theme_mood base_context th =
     (if th = ''morning energy'' then Inr ''energetic, fresh start, morning routine''
      else if th = ''afternoon relaxation'' then Inr ''relaxed, leisure time, comfort''
      else if th = ''evening social'' then Inr ''social, gathering, celebration''
      else if th = ''weekend vibes'' then Inr ''fun, adventure, exploration''
      else if th = ''festive celebration'' then Inr ''festive, joyful, celebration''
      else if th = ''local culture'' then Inr ''cultural, traditional, local pride''
      else if th = ''weather-specific'' then
        (case weather_description base_context of
           Inl e \<Rightarrow> Inl e
         | Inr d \<Rightarrow> Inr (''weather-aware, '' @ d))
      else if th = ''POI-focused'' then Inr ''location-specific, local hotspots''
      else if th = ''lifestyle'' then Inr ''lifestyle-focused, aspirational''
      else Inr ''premium, aspirational, elevated'')"

text \<open>One iteration of the loop: the copy of the base context with its three new keys.\<close>

definition make_variation :: "context_dict \<Rightarrow> int \<Rightarrow> py_error + context_dict" where
  "make_variation base_context i =
     (let th = themes ! nat (i mod int (length themes));
          variation = base_context \<lparr> theme := Some th, variation_id := Some (i + 1) \<rparr>
      in case theme_mood base_context th of
           Inl e \<Rightarrow> Inl e
         | Inr m \<Rightarrow> Inr (variation \<lparr> mood := Some m \<rparr>))"

text \<open>
  The \<open>for\<close> loop over \<open>range(num_variations)\<close>, with the list \<open>variations\<close> as
  accumulator; an exception in one iteration ends the call.
\<close>

fun variations_loop :: "context_dict \<Rightarrow> int list \<Rightarrow> context_dict list \<Rightarrow> py_error + context_dict list" where
  "variations_loop base_context [] variations = Inr variations"
| "variations_loop base_context (i # rest) variations =
     (case make_variation base_context i of
        Inl e \<Rightarrow> Inl e
      | Inr variation \<Rightarrow> variations_loop base_context rest (variations @ [variation]))"

definition create_context_variations :: "context_dict \<Rightarrow> int \<Rightarrow> py_error + context_dict list" where
  "create_context_variations base_context num_variations =
     variations_loop base_context (py_range num_variations) []"


subsection \<open>Season and time of day (app/services/weather\_service.py)\<close>

definition get_season :: "int \<Rightarrow> string" where
  "get_season month =
     (if month \<in> set [12, 1, 2] then ''winter''
      else if month \<in> set [3, 4, 5] then ''spring''
      else if month \<in> set [6, 7, 8] then ''monsoon''
      else ''autumn'')"

definition get_time_of_day :: "int \<Rightarrow> string" where
  "get_time_of_day hour =
     (if 5 \<le> hour \<and> hour < 12 then ''morning''
      else if 12 \<le> hour \<and> hour < 17 then ''afternoon''
      else if 17 \<le> hour \<and> hour < 21 then ''evening''
      else ''night'')"

subsection \<open>The per-city tables and get\_context\<close>

text \<open>\<open>sep.join(parts)\<close>.\<close>

fun join :: "string \<Rightarrow> string list \<Rightarrow> string" where
  "join sep [] = []"
| "join sep [p] = p"
| "join sep (p # q # ps) = p @ sep @ join sep (q # ps)"

text \<open>
  Strings are lists of bytes; the only non-ASCII character of the tables, the letter
  e with acute accent, is its two UTF-8 bytes.
\<close>

definition e_acute :: string where
  "e_acute = [CHR 0xC3, CHR 0xA9]"

definition poi_data :: "(string \<times> string list) list" where
  "poi_data =
     [(''Bangalore'', [''cafes'', ''tech parks'', ''gardens'', ''breweries'', ''malls'']),
      (''Chennai'', [''beaches'', ''temples'', ''marina'', ''shopping districts'']),
      (''Mumbai'', [''marine drive'', ''malls'', ''beaches'', ''street markets'']),
      (''Delhi'', [''monuments'', ''markets'', ''malls'', ''restaurants'', ''historical sites'']),
      (''Hyderabad'', [''tech hubs'', ''biryani spots'', ''lakes'', ''monuments'']),
      (''Pune'', [''colleges'', ''cafes'', ''hills'', ''restaurants'']),
      (''Kolkata'', [''cultural centers'', ''markets'', ''sweets shops'', ''heritage sites''])]"

text \<open>
  The helpers \<open>_get_pois\<close>, \<open>_get_cultural_context\<close> and \<open>_get_local_vibes\<close>, named here
  without the leading underscore. Each is \<open>table.get(city, default)\<close>: a lookup with a
  default, which cannot raise.
\<close>

definition get_pois :: "string \<Rightarrow> string list" where
  "get_pois c =
     (case map_of poi_data c of
        Some ps \<Rightarrow> ps
      | None \<Rightarrow> [''local attractions'', ''shopping areas'', ''restaurants''])"

definition festivals :: "(string \<times> string list) list" where
  "festivals =
     [(''winter'', [''Christmas'', ''New Year'', ''Pongal'', ''Makar Sankranti'']),
      (''spring'', [''Holi'', ''Ugadi'', ''Gudi Padwa'']),
      (''monsoon'', [''Raksha Bandhan'', ''Independence Day'', ''Onam'']),
      (''autumn'', [''Diwali'', ''Durga Puja'', ''Dussehra'', ''Navratri''])]"

definition city_culture :: "(string \<times> string) list" where
  "city_culture =
     [(''Bangalore'', ''tech-savvy, caf'' @ e_acute @ '' culture, cosmopolitan vibes''),
      (''Chennai'', ''traditional, coastal culture, filter coffee culture''),
      (''Mumbai'', ''fast-paced, bollywood, street food culture''),
      (''Delhi'', ''historical, diverse cuisine, shopping culture''),
      (''Hyderabad'', ''biryani culture, tech hub, historical heritage''),
      (''Pune'', ''educational hub, young crowd, caf'' @ e_acute @ '' culture''),
      (''Kolkata'', ''artistic, literary, sweet culture, cultural festivals'')]"

definition get_cultural_context :: "string \<Rightarrow> string \<Rightarrow> string" where
  "get_cultural_context c s =
     (let season_festivals = (case map_of festivals s of Some fs \<Rightarrow> fs | None \<Rightarrow> []);
          city_vibe = (case map_of city_culture c of Some v \<Rightarrow> v
                       | None \<Rightarrow> ''vibrant local culture'');
          ctx = c @ '' culture: '' @ city_vibe @ ''. ''
      in if season_festivals \<noteq> []
         then ctx @ ''Upcoming festivals: '' @ join '', '' (take 2 season_festivals) @ ''.''
         else ctx)"

definition vibes :: "(string \<times> string) list" where
  "vibes =
     [(''Bangalore'', ''Bangalore monsoon vibes, tech-savvy millennials, caf'' @ e_acute @ '' hoppers''),
      (''Chennai'', ''Chennai coastal vibes, traditional yet modern, beach lovers''),
      (''Mumbai'', ''Mumbai hustle, bollywood dreams, street food enthusiasts''),
      (''Delhi'', ''Delhi nightlife, historical charm, food explorers''),
      (''Hyderabad'', ''Hyderabad heritage, biryani lovers, tech professionals''),
      (''Pune'', ''Pune student life, young energy, weekend adventurers''),
      (''Kolkata'', ''Kolkata artistic soul, cultural enthusiasts, sweet lovers'')]"

definition get_local_vibes :: "string \<Rightarrow> string" where
  "get_local_vibes c =
     (case map_of vibes c of
        Some v \<Rightarrow> v
      | None \<Rightarrow> c @ '' local vibes and culture'')"

text \<open>The keys of each of the three per-city tables.\<close>

definition known_cities :: "string list" where
  "known_cities =
     [''Bangalore'', ''Chennai'', ''Mumbai'', ''Delhi'', ''Hyderabad'', ''Pune'', ''Kolkata'']"

text \<open>
  What \<open>get_context\<close> reads from outside: the clock (\<open>datetime.now()\<close>) and the weather
  service, whose \<open>get_weather\<close> catches every failure of the network call itself and
  falls back to its table.
\<close>

record environment =
  now_month :: int
  now_hour :: int
  now_isoformat :: string
  get_weather :: "string \<Rightarrow> weather"
  get_weather_context :: "weather \<Rightarrow> string"

text \<open>
  \<open>context.update(custom_context)\<close>: the keys of the second dictionary win. The guard
  \<open>if custom_context:\<close> skips \<open>None\<close> and the empty dictionary, with which the update
  would change nothing.
\<close>

definition override :: "'a option \<Rightarrow> 'a option \<Rightarrow> 'a option" where
  "override old new = (case new of None \<Rightarrow> old | Some v \<Rightarrow> Some v)"

definition dict_update :: "context_dict \<Rightarrow> context_dict \<Rightarrow> context_dict" where
  "dict_update c u =
     \<lparr> city = override (city c) (city u),
       weather = override (weather c) (weather u),
       weather_context = override (weather_context c) (weather_context u),
       season = override (season c) (season u),
       time_of_day = override (time_of_day c) (time_of_day u),
       pois = override (pois c) (pois u),
       cultural_context = override (cultural_context c) (cultural_context u),
       local_vibes = override (local_vibes c) (local_vibes u),
       product_category = override (product_category c) (product_category u),
       timestamp = override (timestamp c) (timestamp u),
       theme = override (theme c) (theme u),
       mood = override (mood c) (mood u),
       variation_id = override (variation_id c) (variation_id u) \<rparr>"

definition get_context ::
  "environment \<Rightarrow> string \<Rightarrow> string option \<Rightarrow> context_dict option \<Rightarrow> context_dict" where
  "get_context env c category custom_context =
     (let weather_data = get_weather env c;
          wc = get_weather_context env weather_data;
          s = get_season (now_month env);
          tod = get_time_of_day (now_hour env);
          ctx = \<lparr> city = Some c, weather = Some weather_data, weather_context = Some wc,
                  season = Some s, time_of_day = Some tod, pois = Some (get_pois c),
                  cultural_context = Some (get_cultural_context c s),
                  local_vibes = Some (get_local_vibes c),
                  product_category = category, timestamp = Some (now_isoformat env),
                  theme = None, mood = None, variation_id = None \<rparr>
      in case custom_context of
           None \<Rightarrow> ctx
         | Some u \<Rightarrow> dict_update ctx u)"

section \<open>Colours and palettes (app/utils/palette\_utils.py)\<close>

text \<open>
  A colour is the tuple \<open>(r, g, b)\<close> of Python integers. The extractors return channels
  between 0 and 255, which is what \<open>valid_color\<close> says.
\<close>

type_synonym color = "int \<times> int \<times> int"

definition valid_channel :: "int \<Rightarrow> bool" where
  "valid_channel v = (0 \<le> v \<and> v \<le> 255)"

fun valid_color :: "color \<Rightarrow> bool" where
  "valid_color (r, g, b) = (valid_channel r \<and> valid_channel g \<and> valid_channel b)"

subsection \<open>rgb\_to\_hex and hex\_to\_rgb\<close>

definition hex_digit :: "nat \<Rightarrow> char" where
  "hex_digit d = ''0123456789abcdef'' ! d"

fun hex_of_nat :: "nat \<Rightarrow> string" where
  "hex_of_nat n = (if n < 16 then [hex_digit n] else hex_of_nat (n div 16) @ [hex_digit (n mod 16)])"

declare hex_of_nat.simps [simp del]

definition zero_pad :: "nat \<Rightarrow> string \<Rightarrow> string" where
  "zero_pad w s = replicate (w - length s) (CHR ''0'') @ s"

text \<open>
  The format specification \<open>02x\<close>: lowercase hexadecimal, padded with zeros to two
  characters; a negative number has its sign first, which counts in the width.
\<close>

definition format_02x :: "int \<Rightarrow> string" where
  "format_02x v =
     (if v < 0 then CHR ''-'' # zero_pad 1 (hex_of_nat (nat (- v)))
      else zero_pad 2 (hex_of_nat (nat v)))"

fun rgb_to_hex :: "color \<Rightarrow> string" where
  "rgb_to_hex (r, g, b) = CHR ''#'' # format_02x r @ format_02x g @ format_02x b"

text \<open>
  \<open>int(s, 16)\<close> on an ASCII string: optional white space around, an optional sign, an
  optional prefix \<open>0x\<close> or \<open>0X\<close>, then hexadecimal digits of either case, with single
  underscores allowed between digits and after the prefix. Anything else is a ValueError.
\<close>

definition is_space :: "char \<Rightarrow> bool" where
  "is_space c = (c \<in> set [CHR '' '', CHR 0x09, CHR 0x0A, CHR 0x0B, CHR 0x0C, CHR 0x0D])"

definition digit_value :: "char \<Rightarrow> nat option" where
  "digit_value c =
     (let n = (of_char c :: nat)
      in if 48 \<le> n \<and> n \<le> 57 then Some (n - 48)
         else if 97 \<le> n \<and> n \<le> 102 then Some (n - 87)
         else if 65 \<le> n \<and> n \<le> 70 then Some (n - 55)
         else None)"

fun parse_digits :: "nat \<Rightarrow> char \<Rightarrow> string \<Rightarrow> py_error + nat \<times> string" where
  "parse_digits acc prev [] = (if prev = CHR ''_'' then Inl ValueError else Inr (acc, []))"
| "parse_digits acc prev (c # cs) =
     (if c = CHR ''_'' then
        (if prev = CHR ''_'' then Inl ValueError else parse_digits acc c cs)
      else case digit_value c of
             Some d \<Rightarrow> parse_digits (16 * acc + d) c cs
           | None \<Rightarrow> if prev = CHR ''_'' then Inl ValueError else Inr (acc, c # cs))"

definition strip_sign :: "string \<Rightarrow> bool \<times> string" where
  "strip_sign s =
     (case s of
        [] \<Rightarrow> (False, s)
      | c # cs \<Rightarrow> if c = CHR ''+'' then (False, cs)
                  else if c = CHR ''-'' then (True, cs)
                  else (False, s))"

definition strip_prefix_0x :: "string \<Rightarrow> string" where
  "strip_prefix_0x s =
     (case s of
        z # x # rest \<Rightarrow>
          if z = CHR ''0'' \<and> (x = CHR ''x'' \<or> x = CHR ''X'') then
            (case rest of
               [] \<Rightarrow> rest
             | u # rest' \<Rightarrow> if u = CHR ''_'' then rest' else rest)
          else s
      | _ \<Rightarrow> s)"

definition py_int16 :: "string \<Rightarrow> py_error + int" where
  "py_int16 s =
     (let (negative, s2) = strip_sign (dropWhile is_space s);
          s3 = strip_prefix_0x s2
      in case s3 of
           [] \<Rightarrow> Inl ValueError
         | c # _ \<Rightarrow>
             if digit_value c = None then Inl ValueError
             else (case parse_digits 0 c s3 of
                     Inl e \<Rightarrow> Inl e
                   | Inr (n, rest) \<Rightarrow>
                       if dropWhile is_space rest = []
                       then Inr (if negative then - int n else int n)
                       else Inl ValueError))"

text \<open>
  \<open>hex_color.lstrip('#')\<close> removes every leading \<open>#\<close>; the slice \<open>h[i:i+2]\<close> is
  \<open>take 2 (drop i h)\<close>, shorter or empty past the end of the string.
\<close>

definition hex_to_rgb :: "string \<Rightarrow> py_error + color" where
  "hex_to_rgb hex_color =
     (let h = dropWhile (\<lambda>c. c = CHR ''#'') hex_color
      in case py_int16 (take 2 h) of
           Inl e \<Rightarrow> Inl e
         | Inr r \<Rightarrow>
             (case py_int16 (take 2 (drop 2 h)) of
                Inl e \<Rightarrow> Inl e
              | Inr g \<Rightarrow>
                  (case py_int16 (take 2 (drop 4 h)) of
                     Inl e \<Rightarrow> Inl e
                   | Inr b \<Rightarrow> Inr (r, g, b))))"

subsection \<open>Floating-point arithmetic\<close>

text \<open>
  Python floats are IEEE 754 binary64 numbers: every operation returns the representable
  number nearest to the exact result, ties going to the even significand. A float is
  modelled by the rational it denotes. \<open>binary64\<close> rounds a rational to 53 significant
  bits; it is the rounding of the hardware as long as magnitudes stay in the normal range,
  between \<open>2^-1022\<close> and \<open>2^1024\<close>, as all values computed from channels between 0 and
  255 do (no overflow, no subnormal numbers).
\<close>

fun bit_length :: "nat \<Rightarrow> nat" where
  "bit_length n = (if n = 0 then 0 else Suc (bit_length (n div 2)))"

declare bit_length.simps [simp del]

text \<open>The exponent \<open>e\<close> with \<open>2^e \<le> x < 2^(e+1)\<close>, for \<open>x > 0\<close>.\<close>

definition floor_log2 :: "rat \<Rightarrow> int" where
  "floor_log2 x =
     (if 1 \<le> x then int (bit_length (nat \<lfloor>x\<rfloor>)) - 1
      else let k = int (bit_length (nat \<lfloor>1 / x\<rfloor>)) - 1
           in if x * 2 ^ nat k = 1 then - k else - k - 1)"

definition round_half_even :: "rat \<Rightarrow> int" where
  "round_half_even x =
     (let f = \<lfloor>x\<rfloor>; d = x - of_int f
      in if d < 1 / 2 then f
         else if 1 / 2 < d then f + 1
         else if even f then f else f + 1)"

definition pow2 :: "int \<Rightarrow> rat" where
  "pow2 e = (if 0 \<le> e then 2 ^ nat e else 1 / 2 ^ nat (- e))"

definition binary64 :: "rat \<Rightarrow> rat" where
  "binary64 x =
     (if x = 0 then 0
      else let u = pow2 (floor_log2 \<bar>x\<bar> - 52)
           in of_int (round_half_even (x / u)) * u)"

definition float_of_int :: "int \<Rightarrow> rat" where
  "float_of_int i = binary64 (of_int i)"

definition fmul :: "rat \<Rightarrow> rat \<Rightarrow> rat" where
  "fmul a b = binary64 (a * b)"

definition fadd :: "rat \<Rightarrow> rat \<Rightarrow> rat" where
  "fadd a b = binary64 (a + b)"

text \<open>\<open>a / b\<close> on two integers, \<open>b\<close> not zero: the exact quotient, rounded once.\<close>

definition true_div :: "int \<Rightarrow> int \<Rightarrow> rat" where
  "true_div a b = binary64 (of_int a / of_int b)"

subsection \<open>Brightness and darkness\<close>

text \<open>
  \<open>0.299 * rgb[0] + 0.587 * rgb[1] + 0.114 * rgb[2]\<close>, evaluated from left to right;
  each literal is the float nearest to the decimal, each integer is converted to a float.
\<close>

fun get_color_brightness :: "color \<Rightarrow> rat" where
  "get_color_brightness (r, g, b) =
     fadd (fadd (fmul (binary64 (299 / 1000)) (float_of_int r))
                (fmul (binary64 (587 / 1000)) (float_of_int g)))
          (fmul (binary64 (114 / 1000)) (float_of_int b))"

definition is_dark_color :: "color \<Rightarrow> int \<Rightarrow> bool" where
  "is_dark_color rgb threshold = (get_color_brightness rgb < of_int threshold)"

definition get_contrasting_color :: "color \<Rightarrow> color" where
  "get_contrasting_color rgb = (if is_dark_color rgb 128 then (255, 255, 255) else (0, 0, 0))"

subsection \<open>get\_brand\_palette\_info\<close>

record color_description =
  rgb :: color
  hex :: string
  brightness :: rat
  is_dark :: bool

text \<open>
  The palette dictionary. A field is \<open>None\<close> when the dictionary has no such key: the
  built-in default palette of \<open>extract_brand_info\<close> has three keys only.
\<close>

record palette_info =
  colors :: "color list option"
  hex_colors :: "string list option"
  primary_color :: "color option"
  primary_hex :: "string option"
  is_dark_palette :: "bool option"
  color_descriptions :: "color_description list option"


fun saturation :: "color \<Rightarrow> rat" where
  "saturation (r, g, b) =
     (let max_val = max (max r g) b; min_val = min (min r g) b
      in if max_val > 0 then true_div (max_val - min_val) max_val else 0)"

text \<open>
  The loop over \<open>enumerate(colors)\<close>; its state is the pair
  \<open>(primary_idx, max_saturation)\<close>, which starts at \<open>(0, 0)\<close>.
\<close>

fun primary_loop :: "(nat \<times> color) list \<Rightarrow> nat \<times> rat \<Rightarrow> nat \<times> rat" where
  "primary_loop [] st = st"
| "primary_loop ((idx, c) # rest) (primary_idx, max_saturation) =
     (if saturation c > max_saturation
      then primary_loop rest (idx, saturation c)
      else primary_loop rest (primary_idx, max_saturation))"

definition find_primary_idx :: "color list \<Rightarrow> nat" where
  "find_primary_idx cs = fst (primary_loop (enumerate 0 cs) (0, 0))"

text \<open>\<open>sum(is_dark_color(c) for c in colors)\<close>: each \<open>True\<close> counts 1.\<close>

definition dark_count :: "color list \<Rightarrow> nat" where
  "dark_count cs = sum_list (map (\<lambda>c. if is_dark_color c 128 then 1 else 0) cs)"

definition describe_color :: "color \<Rightarrow> string \<Rightarrow> color_description" where
  "describe_color c h =
     \<lparr> rgb = c, hex = h, brightness = get_color_brightness c, is_dark = is_dark_color c 128 \<rparr>"

text \<open>
  \<open>colors[primary_idx]\<close> raises IndexError when the index is not below the length, which
  happens for the empty list only (the index then is still 0).
\<close>

definition get_brand_palette_info :: "color list \<Rightarrow> py_error + palette_info" where
  "get_brand_palette_info cs =
     (let hexs = map rgb_to_hex cs;
          primary_idx = find_primary_idx cs
      in if primary_idx < length cs then
           Inr \<lparr> colors = Some cs,
                 hex_colors = Some hexs,
                 primary_color = Some (cs ! primary_idx),
                 primary_hex = Some (hexs ! primary_idx),
                 is_dark_palette = Some (rat_of_nat (dark_count cs) > rat_of_nat (length cs) / 2),
                 color_descriptions = Some (map2 describe_color cs hexs) \<rparr>
         else Inl IndexError)"

section \<open>Sets of colours in CPython\<close>

text \<open>
  \<open>extract_brand_info\<close> removes duplicates with \<open>list(set(xs))\<close>. Python does not say in
  which order a set is iterated. CPython (3.8 and later, 64-bit) iterates its hash table by
  slot number, so the order is fixed by the hashes of the elements and the probing of
  \<open>Objects/setobject.c\<close>, modelled here for tuples of integers.
\<close>

definition hash_int :: "int \<Rightarrow> 64 word" where
  "hash_int v =
     (let m = 2 ^ 61 - 1;
          h = (if v < 0 then - ((- v) mod m) else v mod m)
      in word_of_int (if h = - 1 then - 2 else h))"

definition xxprime_1 :: "64 word" where "xxprime_1 = 11400714785074694791"
definition xxprime_2 :: "64 word" where "xxprime_2 = 14029467366897019727"
definition xxprime_5 :: "64 word" where "xxprime_5 = 2870177450012600261"

definition xxrotate :: "64 word \<Rightarrow> 64 word" where
  "xxrotate x = push_bit 31 x OR drop_bit 33 x"

fun tuplehash_lanes :: "64 word \<Rightarrow> 64 word list \<Rightarrow> 64 word" where
  "tuplehash_lanes acc [] = acc"
| "tuplehash_lanes acc (lane # lanes) =
     tuplehash_lanes (xxrotate (acc + lane * xxprime_2) * xxprime_1) lanes"

definition tuplehash :: "64 word list \<Rightarrow> 64 word" where
  "tuplehash lanes =
     (let acc = tuplehash_lanes xxprime_5 lanes
                + (word_of_nat (length lanes) XOR (xxprime_5 XOR 3527539))
      in if acc = - 1 then 1546275796 else acc)"

fun hash_color :: "color \<Rightarrow> 64 word" where
  "hash_color (r, g, b) = tuplehash [hash_int r, hash_int g, hash_int b]"

text \<open>
  The table of a set: a slot is unused (\<open>None\<close>) or holds a key with its hash. Nothing is
  ever deleted here, so there are no dummy slots and \<open>fill = used\<close>.
\<close>

type_synonym setentry = "(64 word \<times> color) option"

record pyset =
  table :: "setentry list"
  used :: nat

datatype probe_result = Found_unused nat | Found_active | Not_found

text \<open>The inner \<open>do ... while (probes--)\<close> loop of \<open>set_add_entry\<close>, from slot \<open>j\<close>.\<close>

fun linear_probe :: "setentry list \<Rightarrow> 64 word \<Rightarrow> color \<Rightarrow> nat \<Rightarrow> nat \<Rightarrow> probe_result" where
  "linear_probe tbl h key j 0 =
     (case tbl ! j of
        None \<Rightarrow> Found_unused j
      | Some (h', key') \<Rightarrow> if h' = h \<and> key' = key then Found_active else Not_found)"
| "linear_probe tbl h key j (Suc probes) =
     (case tbl ! j of
        None \<Rightarrow> Found_unused j
      | Some (h', key') \<Rightarrow> if h' = h \<and> key' = key then Found_active
                            else linear_probe tbl h key (Suc j) probes)"

definition next_slot :: "nat \<Rightarrow> 64 word \<Rightarrow> nat \<Rightarrow> nat" where
  "next_slot i perturb msk = unat ((word_of_nat i * 5 + 1 + perturb) AND word_of_nat msk)"

text \<open>
  The outer \<open>while (1)\<close> loop of \<open>set_add_entry\<close>. It ends at the first unused slot or
  at the key itself; the table always has an unused slot, \<open>perturb\<close> is 0 after 13 shifts
  and the slots \<open>5 * i + 1\<close> then run through the whole table. The fuel bounds the number
  of rounds, and \<open>None\<close> says that it ran out.
\<close>

fun probe_add :: "nat \<Rightarrow> setentry list \<Rightarrow> 64 word \<Rightarrow> color \<Rightarrow> nat \<Rightarrow> 64 word \<Rightarrow> probe_result option" where
  "probe_add 0 tbl h key i perturb = None"
| "probe_add (Suc fuel) tbl h key i perturb =
     (let msk = length tbl - 1;
          probes = (if i + 9 \<le> msk then 9 else 0)
      in case linear_probe tbl h key i probes of
           Not_found \<Rightarrow>
             (let perturb' = drop_bit 5 perturb
              in probe_add fuel tbl h key (next_slot i perturb' msk) perturb')
         | r \<Rightarrow> Some r)"

text \<open>\<open>set_insert_clean\<close>: the same probing into a table that cannot hold the key yet.\<close>

fun clean_linear_probe :: "setentry list \<Rightarrow> nat \<Rightarrow> nat \<Rightarrow> nat option" where
  "clean_linear_probe tbl j 0 = (case tbl ! j of None \<Rightarrow> Some j | Some _ \<Rightarrow> None)"
| "clean_linear_probe tbl j (Suc probes) =
     (case tbl ! j of None \<Rightarrow> Some j | Some _ \<Rightarrow> clean_linear_probe tbl (Suc j) probes)"

fun set_insert_clean :: "nat \<Rightarrow> setentry list \<Rightarrow> 64 word \<Rightarrow> color \<Rightarrow> nat \<Rightarrow> 64 word \<Rightarrow> setentry list option" where
  "set_insert_clean 0 tbl h key i perturb = None"
| "set_insert_clean (Suc fuel) tbl h key i perturb =
     (let msk = length tbl - 1;
          probes = (if i + 9 \<le> msk then 9 else 0)
      in case clean_linear_probe tbl i probes of
           Some j \<Rightarrow> Some (tbl [j := Some (h, key)])
         | None \<Rightarrow>
             (let perturb' = drop_bit 5 perturb
              in set_insert_clean fuel tbl h key (next_slot i perturb' msk) perturb'))"

definition probe_fuel :: "setentry list \<Rightarrow> nat" where
  "probe_fuel tbl = 64 + length tbl"

text \<open>The smallest table size, a power of two from 8 on, above \<open>minused\<close>.\<close>

function new_table_size :: "nat \<Rightarrow> nat \<Rightarrow> nat" where
  "new_table_size newsize minused =
     (if 0 < newsize \<and> newsize \<le> minused then new_table_size (2 * newsize) minused
      else newsize)"
  by pat_completeness auto
termination
  by (relation "measure (\<lambda>(newsize, minused). Suc minused - newsize)") auto

declare new_table_size.simps [simp del]

fun reinsert_all :: "setentry list \<Rightarrow> setentry list \<Rightarrow> setentry list option" where
  "reinsert_all [] newtable = Some newtable"
| "reinsert_all (None # old) newtable = reinsert_all old newtable"
| "reinsert_all (Some (h, key) # old) newtable =
     (case set_insert_clean (probe_fuel newtable) newtable h key
             (unat (h AND word_of_nat (length newtable - 1))) h of
        None \<Rightarrow> None
      | Some t \<Rightarrow> reinsert_all old t)"

definition set_table_resize :: "pyset \<Rightarrow> nat \<Rightarrow> pyset option" where
  "set_table_resize so minused =
     (case reinsert_all (table so) (replicate (new_table_size 8 minused) None) of
        None \<Rightarrow> None
      | Some t \<Rightarrow> Some (so \<lparr> table := t \<rparr>))"

definition set_add_key :: "pyset \<Rightarrow> color \<Rightarrow> pyset option" where
  "set_add_key so key =
     (let tbl = table so; msk = length tbl - 1; h = hash_color key
      in case probe_add (probe_fuel tbl) tbl h key (unat (h AND word_of_nat msk)) h of
           None \<Rightarrow> None
         | Some Found_active \<Rightarrow> Some so
         | Some Not_found \<Rightarrow> None
         | Some (Found_unused j) \<Rightarrow>
             (let so' = \<lparr> table = tbl [j := Some (h, key)], used = Suc (used so) \<rparr>
              in if used so' * 5 < msk * 3 then Some so'
                 else set_table_resize so'
                        (if used so' > 50000 then used so' * 2 else used so' * 4)))"

fun set_update :: "pyset \<Rightarrow> color list \<Rightarrow> pyset option" where
  "set_update so [] = Some so"
| "set_update so (key # keys) =
     (case set_add_key so key of None \<Rightarrow> None | Some so' \<Rightarrow> set_update so' keys)"

definition empty_pyset :: pyset where
  "empty_pyset = \<lparr> table = replicate 8 None, used = 0 \<rparr>"

text \<open>
  \<open>list(set(xs))\<close> in CPython: the keys in slot order. (If the fuel ran out the result
  would be the empty list; the examples below never get there.)
\<close>

definition cpython_list_of_set :: "color list \<Rightarrow> color list" where
  "cpython_list_of_set xs =
     (case set_update empty_pyset xs of
        None \<Rightarrow> []
      | Some so \<Rightarrow> map snd (List.map_filter id (table so)))"

section \<open>The brand profile (app/core/brand\_extractor.py)\<close>

text \<open>
  The dictionary \<open>brand_info\<close>; \<open>None\<close> is an absent key. The fields
  \<open>product_category\<close> and \<open>primary_color\<close> have the names of fields of the records
  above, which from here on are written \<open>context_dict.product_category\<close> and
  \<open>palette_info.primary_color\<close>.
\<close>

record brand_info =
  brand_name :: "string option"
  product_category :: "string option"
  has_logo :: "bool option"
  has_product_image :: "bool option"
  logo_colors :: "palette_info option"
  primary_color :: "string option"
  product_colors :: "palette_info option"
  brand_palette :: "palette_info option"

text \<open>\<open>x or default\<close> on an optional string: \<open>None\<close> and the empty string are falsy.\<close>

definition or_default :: "string option \<Rightarrow> string \<Rightarrow> string" where
  "or_default x d = (case x of None \<Rightarrow> d | Some s \<Rightarrow> if s = [] then d else s)"

definition default_palette :: palette_info where
  "default_palette =
     \<lparr> colors = None,
       hex_colors = Some [''#667eea'', ''#764ba2'', ''#f093fb''],
       primary_color = None,
       primary_hex = Some ''#667eea'',
       is_dark_palette = Some False,
       color_descriptions = None \<rparr>"

text \<open>
  The two blocks \<open>if logo_image:\<close> and \<open>if product_image:\<close>: the colours of the image and
  their palette. An image object is always truthy, so the test is \<open>is not None\<close>.
  \<open>extract\<close> is \<open>extract_dominant_colors\<close>, which hands the image to the ColorThief
  library; it is a parameter.
\<close>

definition image_palette ::
  "('img \<Rightarrow> int \<Rightarrow> py_error + color list) \<Rightarrow> 'img option
     \<Rightarrow> py_error + (color list \<times> palette_info) option" where
  "image_palette extract maybe_image =
     (case maybe_image of
        None \<Rightarrow> Inr None
      | Some img \<Rightarrow>
          (case extract img 5 of
             Inl e \<Rightarrow> Inl e
           | Inr cs \<Rightarrow>
               (case get_brand_palette_info cs of
                  Inl e \<Rightarrow> Inl e
                | Inr p \<Rightarrow> Inr (Some (cs, p)))))"

text \<open>
  \<open>list(set(logo_colors[:3] + product_colors[:3]))[:5]\<close>, with the iteration order of the
  set as the parameter \<open>list_of_set\<close>.
\<close>

definition combined_colors ::
  "(color list \<Rightarrow> color list) \<Rightarrow> color list \<Rightarrow> color list \<Rightarrow> color list" where
  "combined_colors list_of_set logo_cs product_cs =
     take 5 (list_of_set (take 3 logo_cs @ take 3 product_cs))"

definition extract_brand_info ::
  "(color list \<Rightarrow> color list) \<Rightarrow> ('img \<Rightarrow> int \<Rightarrow> py_error + color list)
     \<Rightarrow> 'img option \<Rightarrow> 'img option \<Rightarrow> string option \<Rightarrow> string option
     \<Rightarrow> py_error + brand_info" where
  "extract_brand_info list_of_set extract logo_image product_image name category =
     (case image_palette extract logo_image of
        Inl e \<Rightarrow> Inl e
      | Inr logo \<Rightarrow>
          (case image_palette extract product_image of
             Inl e \<Rightarrow> Inl e
           | Inr product \<Rightarrow>
               (let info = \<lparr> brand_name = Some (or_default name ''Brand''),
                              product_category = Some (or_default category ''Product''),
                              has_logo = Some (logo_image \<noteq> None),
                              has_product_image = Some (product_image \<noteq> None),
                              logo_colors = map_option snd logo,
                              primary_color = (case logo of None \<Rightarrow> None
                                               | Some (_, p) \<Rightarrow> primary_hex p),
                              product_colors = map_option snd product,
                              brand_palette = None \<rparr>
                in case (logo, product) of
                     (Some (logo_cs, _), Some (product_cs, _)) \<Rightarrow>
                       (case get_brand_palette_info (combined_colors list_of_set logo_cs product_cs) of
                          Inl e \<Rightarrow> Inl e
                        | Inr p \<Rightarrow> Inr (info \<lparr> brand_palette := Some p \<rparr>))
                   | (Some (_, logo_palette), None) \<Rightarrow>
                       Inr (info \<lparr> brand_palette := Some logo_palette \<rparr>)
                   | (None, Some (_, product_palette)) \<Rightarrow>
                       Inr (info \<lparr> brand_palette := Some product_palette \<rparr>)
                   | (None, None) \<Rightarrow>
                       Inr (info \<lparr> brand_palette := Some default_palette \<rparr>))))"

text \<open>
  The insertion order of the deduplicated union, in the words of the specification:
  every colour at its first occurrence.
\<close>

fun insertion_order :: "color list \<Rightarrow> color list \<Rightarrow> color list" where
  "insertion_order seen [] = []"
| "insertion_order seen (x # xs) =
     (if x \<in> set seen then insertion_order seen xs else x # insertion_order (seen @ [x]) xs)"

section \<open>The prompt (app/core/prompt\_builder.py)\<close>










section \<open>Example values\<close>

text \<open>
  The weather dictionary that \<open>WeatherService\<close> returns for a city outside its table
  when no API key is configured, and an environment built on it (its weather sentence is
  shortened to the description).
\<close>

definition fallback_weather :: "string \<Rightarrow> weather" where
  "fallback_weather c =
     \<lparr> w_city = Some c, temperature = Some 25, feels_like = Some 25, humidity = Some 65,
       description = Some ''pleasant'', main = Some ''Clear'', icon = Some ''01d'',
       wind_speed = Some (7 / 2), clouds = Some 20, source = Some ''location_based_mock'' \<rparr>"

definition sample_env :: environment where
  "sample_env =
     \<lparr> now_month = 7, now_hour = 9, now_isoformat = ''2025-07-01T09:00:00'',
       get_weather = fallback_weather,
       get_weather_context = (\<lambda>w. case description w of None \<Rightarrow> [] | Some d \<Rightarrow> d) \<rparr>"


text \<open>
  An extractor for the examples: an image is given by the list of its dominant colours.
\<close>

definition listed_colors :: "color list \<Rightarrow> int \<Rightarrow> py_error + color list" where
  "listed_colors img num_colors = Inr img"

text \<open>The claim of the round trip is about these strings: \<open>#\<close> and six lowercase hexadecimal digits.\<close>

definition is_lower_hex_digit :: "char \<Rightarrow> bool" where
  "is_lower_hex_digit c = (c \<in> set ''0123456789abcdef'')"

definition is_lower_hex_color :: "string \<Rightarrow> bool" where
  "is_lower_hex_color s =
     (length s = 7 \<and> hd s = CHR ''#'' \<and> list_all is_lower_hex_digit (tl s))"




section \<open>Verification: context variations\<close>











text \<open>
  Claim C10. With \<open>n = 0\<close> or a negative \<open>n\<close> the loop body never runs and the call
  returns the empty list; nothing checks the lower bound.
\<close>

theorem variations_nonpositive:
  "n \<le> 0 \<Longrightarrow> create_context_variations base_context n = Inr []"
  by (simp add: create_context_variations_def py_range_def)

theorem variations_nonpositive_witness:
  "create_context_variations empty_context 0 = Inr [] \<and>
   create_context_variations empty_context (- 3) = Inr []"
  using variations_nonpositive [of 0 empty_context] variations_nonpositive [of "- 3" empty_context]
  by simp

section \<open>Verification: palettes\<close>


lemma round_half_even_nonneg: "0 \<le> x \<Longrightarrow> 0 \<le> round_half_even x"
  by (auto simp: round_half_even_def Let_def)

lemma pow2_pos: "0 < pow2 e"
  by (simp add: pow2_def)

lemma binary64_nonneg: "0 \<le> x \<Longrightarrow> 0 \<le> binary64 x"
  by (simp add: binary64_def Let_def round_half_even_nonneg pow2_pos less_imp_le)

lemma saturation_nonneg: "0 \<le> saturation c"
proof (cases c)
  case (fields r g b)
  show ?thesis
    unfolding fields by (simp add: Let_def true_div_def binary64_nonneg)
qed

lemma primary_loop_spec:
  "primary_loop (enumerate n xs) (pidx, ms) = (ri, rs) \<Longrightarrow>
   (\<forall>j < length xs. saturation (xs ! j) \<le> rs) \<and>
   ((ri = pidx \<and> rs = ms) \<or>
    (n \<le> ri \<and> ri < n + length xs \<and> rs = saturation (xs ! (ri - n)) \<and> ms < rs \<and>
     (\<forall>j < ri - n. saturation (xs ! j) < rs)))"
proof (induction xs arbitrary: n pidx ms)
  case Nil
  then show ?case by simp
next
  case (Cons x xs)
  show ?case
  proof (cases "saturation x > ms")
    case True
    with Cons.prems have run: "primary_loop (enumerate (Suc n) xs) (n, saturation x) = (ri, rs)"
      by simp
    from Cons.IH[OF run] have
      all: "\<forall>j < length xs. saturation (xs ! j) \<le> rs" and
      alt: "(ri = n \<and> rs = saturation x) \<or>
        (Suc n \<le> ri \<and> ri < Suc n + length xs \<and> rs = saturation (xs ! (ri - Suc n)) \<and>
         saturation x < rs \<and> (\<forall>j < ri - Suc n. saturation (xs ! j) < rs))"
      by auto
    from alt have xle: "saturation x \<le> rs" by auto
    have A: "\<forall>j < length (x # xs). saturation ((x # xs) ! j) \<le> rs"
      using all xle by (auto simp: nth_Cons split: nat.splits)
    from alt show ?thesis
    proof
      assume "ri = n \<and> rs = saturation x"
      with True A show ?thesis by auto
    next
      assume b: "Suc n \<le> ri \<and> ri < Suc n + length xs \<and> rs = saturation (xs ! (ri - Suc n)) \<and>
         saturation x < rs \<and> (\<forall>j < ri - Suc n. saturation (xs ! j) < rs)"
      then obtain k where k: "ri - n = Suc k" "ri - Suc n = k" by (cases "ri - n") auto
      have "\<forall>j < ri - n. saturation ((x # xs) ! j) < rs"
        using b k by (auto simp: nth_Cons split: nat.splits)
      moreover have "rs = saturation ((x # xs) ! (ri - n))" using b k by simp
      moreover have "ms < rs" using True b by auto
      ultimately show ?thesis using A b by auto
    qed
  next
    case False
    with Cons.prems have run: "primary_loop (enumerate (Suc n) xs) (pidx, ms) = (ri, rs)"
      by simp
    from Cons.IH[OF run] have
      all: "\<forall>j < length xs. saturation (xs ! j) \<le> rs" and
      alt: "(ri = pidx \<and> rs = ms) \<or>
        (Suc n \<le> ri \<and> ri < Suc n + length xs \<and> rs = saturation (xs ! (ri - Suc n)) \<and>
         ms < rs \<and> (\<forall>j < ri - Suc n. saturation (xs ! j) < rs))"
      by auto
    from alt have "ms \<le> rs" by auto
    with False have xle: "saturation x \<le> rs" by simp
    have A: "\<forall>j < length (x # xs). saturation ((x # xs) ! j) \<le> rs"
      using all xle by (auto simp: nth_Cons split: nat.splits)
    from alt show ?thesis
    proof
      assume "ri = pidx \<and> rs = ms"
      with A show ?thesis by auto
    next
      assume b: "Suc n \<le> ri \<and> ri < Suc n + length xs \<and> rs = saturation (xs ! (ri - Suc n)) \<and>
         ms < rs \<and> (\<forall>j < ri - Suc n. saturation (xs ! j) < rs)"
      then obtain k where k: "ri - n = Suc k" "ri - Suc n = k" by (cases "ri - n") auto
      have xlt: "saturation x < rs" using False b by auto
      have "\<forall>j < ri - n. saturation ((x # xs) ! j) < rs"
        using b k xlt by (auto simp: nth_Cons split: nat.splits)
      moreover have "rs = saturation ((x # xs) ! (ri - n))" using b k by simp
      ultimately show ?thesis using A b by auto
    qed
  qed
qed

lemma find_primary_idx_spec:
  assumes "cs \<noteq> []"
  shows "find_primary_idx cs < length cs \<and>
         (\<forall>j < length cs. saturation (cs ! j) \<le> saturation (cs ! find_primary_idx cs)) \<and>
         (\<forall>j < find_primary_idx cs. saturation (cs ! j) < saturation (cs ! find_primary_idx cs))"
proof -
  obtain ri rs where run: "primary_loop (enumerate 0 cs) (0, 0) = (ri, rs)"
    by (cases "primary_loop (enumerate 0 cs) (0, 0)") auto
  then have idx: "find_primary_idx cs = ri" by (simp add: find_primary_idx_def)
  from primary_loop_spec[OF run] have
    all: "\<forall>j < length cs. saturation (cs ! j) \<le> rs" and
    alt: "(ri = 0 \<and> rs = 0) \<or>
       (ri < length cs \<and> rs = saturation (cs ! ri) \<and> 0 < rs \<and>
        (\<forall>j < ri. saturation (cs ! j) < rs))"
    by auto
  from alt show ?thesis
  proof
    assume z: "ri = 0 \<and> rs = 0"
    have "saturation (cs ! j) = 0" if "j < length cs" for j
    proof (rule antisym)
      from all z that show "saturation (cs ! j) \<le> 0" by simp
      show "0 \<le> saturation (cs ! j)" by (rule saturation_nonneg)
    qed
    with z assms idx show ?thesis by auto
  next
    assume "ri < length cs \<and> rs = saturation (cs ! ri) \<and> 0 < rs \<and>
        (\<forall>j < ri. saturation (cs ! j) < rs)"
    with all idx show ?thesis by auto
  qed
qed

lemma find_primary_idx_Nil: "find_primary_idx [] = 0"
  by (simp add: find_primary_idx_def)



text \<open>
  The rounding matters at the threshold: for the colour \<open>(8, 200, 72)\<close> the exact value
  of \<open>0.299 r + 0.587 g + 0.114 b\<close> is 128, the floats add up to
  \<open>127.99999999999999\<close>, and the code takes the colour for dark.
\<close>

lemma boundary_color_is_dark:
  "299 * 8 + 587 * 200 + 114 * 72 = (128000 :: int) \<and> is_dark_color (8, 200, 72) 128"
  by code_simp





text \<open>
  Claim C6. \<open>get_brand_palette_info\<close> is a function of its argument alone; it returns a
  palette for every non-empty list of colours with channels between 0 and 255, and on the
  empty list it raises: the subscript \<open>colors[0]\<close> fails with Python's IndexError, the
  exception that the specification calls InvalidInputError.
\<close>

theorem palette_info_total:
  "get_brand_palette_info [] = Inl IndexError \<and>
   (cs \<noteq> [] \<and> list_all valid_color cs \<longrightarrow> (\<exists>p. get_brand_palette_info cs = Inr p))"
proof
  show "get_brand_palette_info [] = Inl IndexError"
    by (simp add: get_brand_palette_info_def find_primary_idx_Nil)
  show "cs \<noteq> [] \<and> list_all valid_color cs \<longrightarrow> (\<exists>p. get_brand_palette_info cs = Inr p)"
  proof
    assume "cs \<noteq> [] \<and> list_all valid_color cs"
    then have "find_primary_idx cs < length cs" using find_primary_idx_spec by blast
    then show "\<exists>p. get_brand_palette_info cs = Inr p"
      by (simp add: get_brand_palette_info_def Let_def)
  qed
qed

theorem palette_info_total_witness:
  "get_brand_palette_info [] = Inl IndexError \<and>
   ([(102, 126, 234)] \<noteq> [] \<and> list_all valid_color [(102, 126, 234)]) \<and>
   (\<exists>p. get_brand_palette_info [(102, 126, 234)] = Inr p)"
proof -
  have a: "[(102, 126, 234) :: color] \<noteq> [] \<and> list_all valid_color [(102, 126, 234)]"
    by (simp add: valid_channel_def)
  from palette_info_total [of "[(102, 126, 234)]"] a show ?thesis by blast
qed

section \<open>Verification: unknown cities\<close>

lemma keys_poi: "map fst poi_data = known_cities"
  by (simp add: poi_data_def known_cities_def)
lemma keys_culture: "map fst city_culture = known_cities"
  by (simp add: city_culture_def known_cities_def)
lemma keys_vibes: "map fst vibes = known_cities"
  by (simp add: vibes_def known_cities_def)

lemma map_of_unknown: "c \<notin> set (map fst t) \<Longrightarrow> map_of t c = None"
  by (simp add: map_of_eq_None_iff)

text \<open>
  Claim C7, as the code has it. For a city that is not a key of the tables, the helpers
  are lookups with a default and cannot raise, and \<open>get_context\<close> stores their results.
  The fallback cultural context and the fallback local-vibes string are built from the
  city's name and contain it; the fallback list of points of interest is a fixed list,
  the same for every city.
\<close>

theorem unknown_city_fallback:
  assumes "c \<notin> set known_cities"
  shows "get_pois c = [''local attractions'', ''shopping areas'', ''restaurants''] \<and>
         get_cultural_context c s = c @ '' culture: vibrant local culture. '' @
            (case map_of festivals s of
               Some fs \<Rightarrow> if fs \<noteq> [] then ''Upcoming festivals: '' @ join '', '' (take 2 fs) @ ''.'' else []
             | None \<Rightarrow> []) \<and>
         sublist c (get_cultural_context c s) \<and>
         get_local_vibes c = c @ '' local vibes and culture'' \<and>
         sublist c (get_local_vibes c) \<and>
         pois (get_context env c category None) = Some (get_pois c) \<and>
         cultural_context (get_context env c category None)
           = Some (get_cultural_context c (get_season (now_month env))) \<and>
         local_vibes (get_context env c category None) = Some (get_local_vibes c)"
proof -
  from assms have p: "map_of poi_data c = None" and q: "map_of city_culture c = None"
    and v: "map_of vibes c = None"
    by (simp_all add: map_of_unknown keys_poi keys_culture keys_vibes)
  have 1: "get_pois c = [''local attractions'', ''shopping areas'', ''restaurants'']"
    using p by (simp add: get_pois_def)
  have 2: "get_cultural_context c s = c @ '' culture: vibrant local culture. '' @
            (case map_of festivals s of
               Some fs \<Rightarrow> if fs \<noteq> [] then ''Upcoming festivals: '' @ join '', '' (take 2 fs) @ ''.'' else []
             | None \<Rightarrow> [])"
    using q by (simp add: get_cultural_context_def Let_def split: option.splits)
  have 3: "sublist c (get_cultural_context c s)"
    unfolding 2 by (rule sublist_append_rightI)
  have 4: "get_local_vibes c = c @ '' local vibes and culture''"
    using v by (simp add: get_local_vibes_def)
  have 5: "sublist c (get_local_vibes c)"
    unfolding 4 by (rule sublist_append_rightI)
  have 6: "pois (get_context env c category None) = Some (get_pois c)"
    "cultural_context (get_context env c category None)
           = Some (get_cultural_context c (get_season (now_month env)))"
    "local_vibes (get_context env c category None) = Some (get_local_vibes c)"
    by (simp_all add: get_context_def Let_def)
  from 1 2 3 4 5 6 show ?thesis by blast
qed

theorem unknown_city_fallback_witness:
  "''Paris'' \<notin> set known_cities \<and>
   get_pois ''Paris'' = [''local attractions'', ''shopping areas'', ''restaurants''] \<and>
   sublist ''Paris'' (get_cultural_context ''Paris'' ''monsoon'') \<and>
   get_local_vibes ''Paris'' = ''Paris local vibes and culture'' \<and>
   pois (get_context sample_env ''Paris'' None None) = Some (get_pois ''Paris'')"
proof -
  have a: "''Paris'' \<notin> set known_cities" by (simp add: known_cities_def)
  from unknown_city_fallback [OF a, of "''monsoon''" sample_env None] a show ?thesis by simp
qed

text \<open>
  Claim C7 as stated fails for the points of interest: for the unknown city Paris none of
  the three fallback strings contains the name of the city.
\<close>

theorem unknown_city_pois_counterexample:
  "''Paris'' \<notin> set known_cities \<and>
   get_pois ''Paris'' = [''local attractions'', ''shopping areas'', ''restaurants''] \<and>
   \<not> sublist ''Paris'' ''local attractions'' \<and>
   \<not> sublist ''Paris'' ''shopping areas'' \<and>
   \<not> sublist ''Paris'' ''restaurants''"
  by (simp add: known_cities_def get_pois_def poi_data_def sublist_Cons_right)

section \<open>Verification: the brand profile\<close>

text \<open>
  Claim C4. Without a logo and without a product image, whatever the other arguments are,
  \<open>extract_brand_info\<close> returns a profile whose brand palette is the built-in default:
  the hex colours \<open>#667eea\<close>, \<open>#764ba2\<close>, \<open>#f093fb\<close>, the primary hex \<open>#667eea\<close>, not
  dark, and no other key.
\<close>

theorem no_images_default_palette:
  "\<exists>info. extract_brand_info list_of_set extract None None name category = Inr info \<and>
     brand_palette info = Some default_palette \<and>
     hex_colors default_palette = Some [''#667eea'', ''#764ba2'', ''#f093fb''] \<and>
     primary_hex default_palette = Some ''#667eea'' \<and>
     is_dark_palette default_palette = Some False \<and>
     colors default_palette = None \<and>
     palette_info.primary_color default_palette = None \<and>
     color_descriptions default_palette = None"
  by (simp add: extract_brand_info_def image_palette_def default_palette_def)

section \<open>Verification: hex strings\<close>


lemma lower_hex_digit_value_all:
  "\<forall>c \<in> set ''0123456789abcdef''. \<exists>d < 16. digit_value c = Some d \<and> hex_digit d = c"
  by (simp add: digit_value_def hex_digit_def)

lemma lower_hex_digit_value:
  assumes "is_lower_hex_digit c"
  shows "\<exists>d < 16. digit_value c = Some d \<and> hex_digit d = c"
  using assms lower_hex_digit_value_all unfolding is_lower_hex_digit_def by blast

lemma lower_hex_digit_plain_all:
  "\<forall>c \<in> set ''0123456789abcdef''.
     c \<noteq> CHR ''_'' \<and> c \<noteq> CHR ''+'' \<and> c \<noteq> CHR ''-'' \<and> c \<noteq> CHR ''#'' \<and>
     c \<noteq> CHR ''x'' \<and> c \<noteq> CHR ''X'' \<and> \<not> is_space c"
  by (simp add: is_space_def)

lemma lower_hex_digit_plain:
  assumes "is_lower_hex_digit c"
  shows "c \<noteq> CHR ''_'' \<and> c \<noteq> CHR ''+'' \<and> c \<noteq> CHR ''-'' \<and> c \<noteq> CHR ''#'' \<and>
         c \<noteq> CHR ''x'' \<and> c \<noteq> CHR ''X'' \<and> \<not> is_space c"
  using assms lower_hex_digit_plain_all unfolding is_lower_hex_digit_def by blast

lemma py_int16_pair:
  assumes a: "digit_value a = Some da" "is_lower_hex_digit a"
      and b: "digit_value b = Some db" "is_lower_hex_digit b"
  shows "py_int16 [a, b] = Inr (int (16 * da + db))"
proof -
  from lower_hex_digit_plain[OF a(2)] lower_hex_digit_plain[OF b(2)]
  have plain: "a \<noteq> CHR ''_''" "a \<noteq> CHR ''+''" "a \<noteq> CHR ''-''" "\<not> is_space a"
    "b \<noteq> CHR ''_''" "b \<noteq> CHR ''x''" "b \<noteq> CHR ''X''"
    by simp_all
  have 1: "dropWhile is_space [a, b] = [a, b]" using plain by simp
  have 2: "strip_sign [a, b] = (False, [a, b])" using plain by (simp add: strip_sign_def)
  have 3: "strip_prefix_0x [a, b] = [a, b]" using plain by (simp add: strip_prefix_0x_def)
  have 4: "parse_digits 0 a [a, b] = Inr (16 * da + db, [])"
    using plain a(1) b(1) by simp
  have "py_int16 [a, b] =
     (case parse_digits 0 a [a, b] of
        Inl e \<Rightarrow> Inl e
      | Inr (n, rest) \<Rightarrow>
          if dropWhile is_space rest = [] then Inr (if False then - int n else int n)
          else Inl ValueError)"
    unfolding py_int16_def 1 2 using a(1) by (simp add: 3)
  then show ?thesis unfolding 4 by simp
qed

lemma format_02x_nat: "format_02x (int n) = zero_pad 2 (hex_of_nat n)"
  unfolding format_02x_def by simp

lemma format_02x_pair:
  assumes "da < 16" "db < 16"
  shows "format_02x (int (16 * da + db)) = [hex_digit da, hex_digit db]"
proof (cases "da = 0")
  case True
  then have "hex_of_nat (16 * da + db) = [hex_digit db]"
    using assms by (simp add: hex_of_nat.simps)
  moreover have "hex_digit 0 = CHR ''0''" by (simp add: hex_digit_def)
  ultimately show ?thesis unfolding format_02x_nat using True by (simp add: zero_pad_def)
next
  case False
  then have big: "\<not> 16 * da + db < 16" by simp
  have d: "(16 * da + db) div 16 = da" and m: "(16 * da + db) mod 16 = db"
    using assms by simp_all
  have "hex_of_nat (16 * da + db) = hex_of_nat da @ [hex_digit db]"
    using big d m by (subst hex_of_nat.simps) simp
  also have "hex_of_nat da = [hex_digit da]" using assms by (simp add: hex_of_nat.simps)
  finally show ?thesis unfolding format_02x_nat by (simp add: zero_pad_def)
qed

lemma pair_roundtrip:
  assumes "is_lower_hex_digit a" "is_lower_hex_digit b"
  shows "\<exists>v. py_int16 [a, b] = Inr v \<and> format_02x v = [a, b]"
proof -
  from lower_hex_digit_value[OF assms(1)] obtain da where
    da: "da < 16" "digit_value a = Some da" "hex_digit da = a" by blast
  from lower_hex_digit_value[OF assms(2)] obtain db where
    db: "db < 16" "digit_value b = Some db" "hex_digit db = b" by blast
  from py_int16_pair[OF da(2) assms(1) db(2) assms(2)] format_02x_pair[OF da(1) db(1)] da(3) db(3)
  show ?thesis by simp
qed

text \<open>
  Claim C8. For a string made of \<open>#\<close> and six lowercase hexadecimal digits,
  \<open>hex_to_rgb\<close> returns a colour and \<open>rgb_to_hex\<close> of that colour is the string.
\<close>

theorem hex_round_trip:
  assumes "is_lower_hex_color s"
  shows "\<exists>c. hex_to_rgb s = Inr c \<and> rgb_to_hex c = s"
proof -
  from assms have len: "length s = 7" by (simp add: is_lower_hex_color_def)
  then obtain h a b c d e f where s: "s = [h, a, b, c, d, e, f]"
    by (auto simp: length_Suc_conv eval_nat_numeral)
  from assms s have h: "h = CHR ''#''" and
    dig: "is_lower_hex_digit a" "is_lower_hex_digit b" "is_lower_hex_digit c"
         "is_lower_hex_digit d" "is_lower_hex_digit e" "is_lower_hex_digit f"
    by (simp_all add: is_lower_hex_color_def)
  from pair_roundtrip[OF dig(1) dig(2)] obtain r where
    r: "py_int16 [a, b] = Inr r" "format_02x r = [a, b]" by blast
  from pair_roundtrip[OF dig(3) dig(4)] obtain g where
    g: "py_int16 [c, d] = Inr g" "format_02x g = [c, d]" by blast
  from pair_roundtrip[OF dig(5) dig(6)] obtain bl where
    bl: "py_int16 [e, f] = Inr bl" "format_02x bl = [e, f]" by blast
  have "a \<noteq> CHR ''#''" using lower_hex_digit_plain[OF dig(1)] by simp
  then have "hex_to_rgb s = Inr (r, g, bl)"
    by (simp add: hex_to_rgb_def s h r g bl)
  moreover have "rgb_to_hex (r, g, bl) = s"
    by (simp add: s h r g bl)
  ultimately show ?thesis by blast
qed

theorem hex_round_trip_witness:
  "is_lower_hex_color ''#667eea'' \<and>
   (\<exists>c. hex_to_rgb ''#667eea'' = Inr c \<and> rgb_to_hex c = ''#667eea'')"
proof -
  have a: "is_lower_hex_color ''#667eea''"
    by (simp add: is_lower_hex_color_def is_lower_hex_digit_def)
  from hex_round_trip [OF a] a show ?thesis by blast
qed

section \<open>Verification: the merged palette\<close>


lemma image_palette_Some:
  assumes "extract img 5 = Inr cs" and "cs \<noteq> []"
  shows "\<exists>p. image_palette extract (Some img) = Inr (Some (cs, p))"
proof -
  from find_primary_idx_spec[OF assms(2)] obtain p where "get_brand_palette_info cs = Inr p"
    by (simp add: get_brand_palette_info_def Let_def)
  with assms(1) show ?thesis by (simp add: image_palette_def)
qed

lemma take_distinct_set:
  assumes "distinct ys" and "card (set ys) \<le> n"
  shows "take n ys = ys"
proof -
  from assms have "length ys \<le> n" by (simp add: distinct_card)
  then show ?thesis by simp
qed

text \<open>
  Claim C5, as the code has it. When both images yield a palette, the brand palette is
  \<open>get_brand_palette_info\<close> of the merged list, which holds no colour twice, has at most
  five colours, all from the first three colours of the logo and of the product image, and
  all of these when they are at most five. The order of the merged list is the order in
  which the set is iterated, whatever that is: the theorem holds for every \<open>list_of_set\<close>
  that returns the elements of its argument once each.
\<close>

theorem merged_palette_colors:
  assumes ext_l: "extract logo 5 = Inr lcs" and ext_p: "extract product 5 = Inr pcs"
    and ne: "lcs \<noteq> []" "pcs \<noteq> []"
    and valid: "list_all valid_color lcs" "list_all valid_color pcs"
    and ord: "distinct (list_of_set (take 3 lcs @ take 3 pcs))"
             "set (list_of_set (take 3 lcs @ take 3 pcs)) = set (take 3 lcs @ take 3 pcs)"
  shows "\<exists>info p.
           extract_brand_info list_of_set extract (Some logo) (Some product) name category = Inr info \<and>
           brand_palette info = Some p \<and>
           get_brand_palette_info (combined_colors list_of_set lcs pcs) = Inr p \<and>
           colors p = Some (combined_colors list_of_set lcs pcs) \<and>
           length (combined_colors list_of_set lcs pcs) \<le> 5 \<and>
           distinct (combined_colors list_of_set lcs pcs) \<and>
           set (combined_colors list_of_set lcs pcs) \<subseteq> set (take 3 lcs) \<union> set (take 3 pcs) \<and>
           (card (set (take 3 lcs) \<union> set (take 3 pcs)) \<le> 5 \<longrightarrow>
              set (combined_colors list_of_set lcs pcs) = set (take 3 lcs) \<union> set (take 3 pcs))"
proof -
  let ?ys = "list_of_set (take 3 lcs @ take 3 pcs)"
  let ?cc = "combined_colors list_of_set lcs pcs"
  have cc: "?cc = take 5 ?ys" by (simp add: combined_colors_def)
  have len: "length ?cc \<le> 5" by (simp add: cc)
  have dist: "distinct ?cc" using ord(1) by (simp add: cc)
  have sub: "set ?cc \<subseteq> set (take 3 lcs) \<union> set (take 3 pcs)"
    using set_take_subset[of 5 ?ys] ord(2) by (auto simp: cc)
  have full: "card (set (take 3 lcs) \<union> set (take 3 pcs)) \<le> 5 \<longrightarrow>
              set ?cc = set (take 3 lcs) \<union> set (take 3 pcs)"
  proof
    assume "card (set (take 3 lcs) \<union> set (take 3 pcs)) \<le> 5"
    then have "card (set ?ys) \<le> 5" using ord(2) by simp
    from take_distinct_set[OF ord(1) this] have "?cc = ?ys" by (simp add: cc)
    then show "set ?cc = set (take 3 lcs) \<union> set (take 3 pcs)" using ord(2) by simp
  qed
  from ne(1) have "take 3 lcs \<noteq> []" by (cases lcs) simp_all
  then have "set ?ys \<noteq> {}" using ord(2) by simp
  then have "?ys \<noteq> []" by auto
  then have "?cc \<noteq> []" by (simp add: cc)
  from find_primary_idx_spec[OF this] obtain p where
    p: "get_brand_palette_info ?cc = Inr p" "colors p = Some ?cc"
    by (simp add: get_brand_palette_info_def Let_def)
  have "\<exists>q. image_palette extract (Some logo) = Inr (Some (lcs, q))"
    using ext_l ne(1) by (rule image_palette_Some)
  then obtain lp where
    lp: "image_palette extract (Some logo) = Inr (Some (lcs, lp))" by blast
  have "\<exists>q. image_palette extract (Some product) = Inr (Some (pcs, q))"
    using ext_p ne(2) by (rule image_palette_Some)
  then obtain pp where
    pp: "image_palette extract (Some product) = Inr (Some (pcs, pp))" by blast
  have "\<exists>info. extract_brand_info list_of_set extract (Some logo) (Some product) name category
            = Inr info \<and> brand_palette info = Some p"
    by (simp add: extract_brand_info_def lp pp p)
  with p len dist sub full show ?thesis by blast
qed


lemma cpython_order_example:
  "cpython_list_of_set [(255, 0, 0), (0, 255, 0)] = [(0, 255, 0), (255, 0, 0)]"
  by code_simp

theorem merged_palette_colors_witness:
  "listed_colors [(255, 0, 0)] 5 = Inr [(255, 0, 0)] \<and>
   listed_colors [(0, 255, 0)] 5 = Inr [(0, 255, 0)] \<and>
   [(255, 0, 0) :: color] \<noteq> [] \<and> [(0, 255, 0) :: color] \<noteq> [] \<and>
   list_all valid_color [(255, 0, 0)] \<and> list_all valid_color [(0, 255, 0)] \<and>
   distinct (cpython_list_of_set (take 3 [(255, 0, 0)] @ take 3 [(0, 255, 0)])) \<and>
   set (cpython_list_of_set (take 3 [(255, 0, 0)] @ take 3 [(0, 255, 0)]))
     = set (take 3 [(255, 0, 0)] @ take 3 [(0, 255, 0)]) \<and>
   (\<exists>info p.
      extract_brand_info cpython_list_of_set listed_colors
          (Some [(255, 0, 0)]) (Some [(0, 255, 0)]) None None = Inr info \<and>
      brand_palette info = Some p \<and>
      colors p = Some (combined_colors cpython_list_of_set [(255, 0, 0)] [(0, 255, 0)]) \<and>
      set (combined_colors cpython_list_of_set [(255, 0, 0)] [(0, 255, 0)])
        = set (take 3 [(255, 0, 0)]) \<union> set (take 3 [(0, 255, 0)]))"
proof -
  have e1: "listed_colors [(255, 0, 0)] 5 = Inr [(255, 0, 0)]"
    and e2: "listed_colors [(0, 255, 0)] 5 = Inr [(0, 255, 0)]"
    by (simp_all add: listed_colors_def)
  have n1: "[(255, 0, 0) :: color] \<noteq> []" and n2: "[(0, 255, 0) :: color] \<noteq> []" by simp_all
  have v1: "list_all valid_color [(255, 0, 0)]" and v2: "list_all valid_color [(0, 255, 0)]"
    by (simp_all add: valid_channel_def)
  have d: "distinct (cpython_list_of_set (take 3 [(255, 0, 0)] @ take 3 [(0, 255, 0)]))"
    by (simp add: cpython_order_example)
  have s: "set (cpython_list_of_set (take 3 [(255, 0, 0)] @ take 3 [(0, 255, 0)]))
     = set (take 3 [(255, 0, 0)] @ take 3 [(0, 255, 0)])"
    by (auto simp: cpython_order_example)
  have c: "card (set (take 3 [(255, 0, 0) :: color]) \<union> set (take 3 [(0, 255, 0)])) \<le> 5"
    by simp
  have "\<exists>info p.
      extract_brand_info cpython_list_of_set listed_colors
          (Some [(255, 0, 0)]) (Some [(0, 255, 0)]) None None = Inr info \<and>
      brand_palette info = Some p \<and>
      get_brand_palette_info (combined_colors cpython_list_of_set [(255, 0, 0)] [(0, 255, 0)]) = Inr p \<and>
      colors p = Some (combined_colors cpython_list_of_set [(255, 0, 0)] [(0, 255, 0)]) \<and>
      length (combined_colors cpython_list_of_set [(255, 0, 0)] [(0, 255, 0)]) \<le> 5 \<and>
      distinct (combined_colors cpython_list_of_set [(255, 0, 0)] [(0, 255, 0)]) \<and>
      set (combined_colors cpython_list_of_set [(255, 0, 0)] [(0, 255, 0)])
        \<subseteq> set (take 3 [(255, 0, 0)]) \<union> set (take 3 [(0, 255, 0)]) \<and>
      (card (set (take 3 [(255, 0, 0) :: color]) \<union> set (take 3 [(0, 255, 0)])) \<le> 5 \<longrightarrow>
         set (combined_colors cpython_list_of_set [(255, 0, 0)] [(0, 255, 0)])
           = set (take 3 [(255, 0, 0)]) \<union> set (take 3 [(0, 255, 0)]))"
    using e1 e2 n1 n2 v1 v2 d s by (rule merged_palette_colors)
  with c e1 e2 n1 n2 v1 v2 d s show ?thesis by blast
qed

text \<open>
  Claim C5 as stated fails on the order: for the logo colour \<open>(255, 0, 0)\<close> and the
  product colour \<open>(0, 255, 0)\<close> CPython iterates the set with the product colour first,
  while the insertion order of the deduplicated union has the logo colour first.
\<close>

theorem merged_order_counterexample:
  "combined_colors cpython_list_of_set [(255, 0, 0)] [(0, 255, 0)] = [(0, 255, 0), (255, 0, 0)] \<and>
   insertion_order [] (take 3 [(255, 0, 0)] @ take 3 [(0, 255, 0)]) = [(255, 0, 0), (0, 255, 0)]"
  by (simp add: combined_colors_def cpython_order_example)

section \<open>Verification: the prompt\<close>












end
